theory Spec2Isabelle
  imports Complex_Main "HOL-Library.Finite_Map" "HOL-Library.Multiset"
begin

section \<open>Data model\<close>

text \<open>
  The configuration document of \<^verbatim>\<open>main_tenpy.py\<close> is whatever
  \<^verbatim>\<open>yaml.safe_load\<close> returns: a tree of Python values.  A \<^verbatim>\<open>dict\<close> is a finite map
  from its (string) keys to values, so that equality of two documents is Python's
  \<^verbatim>\<open>==\<close> on dicts, which ignores the order of the keys.  A Python \<^verbatim>\<open>float\<close> is
  modelled by the rational number it denotes and float arithmetic by exact arithmetic
  (no rounding, no \<^verbatim>\<open>inf\<close>, no \<^verbatim>\<open>nan\<close>).  This is the arithmetic of the code
  wherever its operations are exact, as they are on multiples of one half of magnitude
  below \<open>2\<^sup>5\<^sup>2\<close>; elsewhere the code rounds a sum to the nearest double, and a product
  that exceeds the doubles becomes \<^verbatim>\<open>inf\<close>, on which \<^verbatim>\<open>int\<close> raises
  \<^verbatim>\<open>OverflowError\<close>.
\<close>

datatype yval =
    YNone
  | YBool bool
  | YInt int
  | YFloat rat
  | YStr string
  | YList "yval list"
  | YDict "(string, yval) fmap"

text \<open>
  Every \<^verbatim>\<open>raise\<close> of the source is a \<^verbatim>\<open>ValueError\<close> that carries its message; the
  other constructors are the exceptions Python itself raises on a value of the wrong
  type or on a missing key.
\<close>

datatype error =
    ValueError string
  | TypeError
  | AttributeError
  | KeyError string

text \<open>
  The file system maps a path to the document stored in the file.  The file's text is
  identified with the value \<^verbatim>\<open>yaml.safe_load\<close> reads from it: what
  \<^verbatim>\<open>yaml.safe_dump\<close> writes is what \<^verbatim>\<open>yaml.safe_load\<close> reads back.  Files that are
  not YAML and paths that cannot be written are outside the model.
\<close>

type_synonym fs = "string \<rightharpoonup> yval"

subsection \<open>Python's operations on values\<close>

text \<open>Truth value of an object, as \<^verbatim>\<open>or\<close> tests it.\<close>

fun truthy :: "yval \<Rightarrow> bool" where
  "truthy YNone = False"
| "truthy (YBool b) = b"
| "truthy (YInt i) = (i \<noteq> 0)"
| "truthy (YFloat x) = (x \<noteq> 0)"
| "truthy (YStr s) = (s \<noteq> [])"
| "truthy (YList xs) = (xs \<noteq> [])"
| "truthy (YDict d) = (d \<noteq> fmempty)"

text \<open>\<^verbatim>\<open>obj[key] = val\<close> with a string key: only a dict accepts it.\<close>

fun py_setitem :: "yval \<Rightarrow> string \<Rightarrow> yval \<Rightarrow> error + yval" where
  "py_setitem (YDict d) k v = Inr (YDict (fmupd k v d))"
| "py_setitem _ k v = Inl TypeError"

text \<open>\<^verbatim>\<open>obj[key]\<close> with a string key.\<close>

fun py_getitem :: "yval \<Rightarrow> string \<Rightarrow> error + yval" where
  "py_getitem (YDict d) k = (case fmlookup d k of None \<Rightarrow> Inl (KeyError k) | Some v \<Rightarrow> Inr v)"
| "py_getitem _ k = Inl TypeError"

text \<open>\<^verbatim>\<open>obj.get(key, default)\<close>: a method of dicts only.\<close>

fun py_get :: "yval \<Rightarrow> string \<Rightarrow> yval \<Rightarrow> error + yval" where
  "py_get (YDict d) k dflt = Inr (case fmlookup d k of None \<Rightarrow> dflt | Some v \<Rightarrow> v)"
| "py_get _ k dflt = Inl AttributeError"

text \<open>
  \<^verbatim>\<open>obj.setdefault(key, default)\<close>: returns the value now under the key, and the
  dict, in which the key is present afterwards.
\<close>

fun py_setdefault :: "yval \<Rightarrow> string \<Rightarrow> yval \<Rightarrow> error + (yval \<times> yval)" where
  "py_setdefault (YDict d) k dflt =
     (case fmlookup d k of
        None \<Rightarrow> Inr (dflt, YDict (fmupd k dflt d))
      | Some v \<Rightarrow> Inr (v, YDict d))"
| "py_setdefault _ k dflt = Inl AttributeError"

text \<open>\<^verbatim>\<open>obj.pop(key, None)\<close>, called on a value that has already accepted an item
  assignment with a string key (a dict).\<close>

fun py_pop :: "yval \<Rightarrow> string \<Rightarrow> error + yval" where
  "py_pop (YDict d) k = Inr (YDict (fmdrop k d))"
| "py_pop _ k = Inl AttributeError"

text \<open>\<^verbatim>\<open>obj.copy()\<close>: dicts and lists have the method.\<close>

fun py_copy :: "yval \<Rightarrow> error + yval" where
  "py_copy (YDict d) = Inr (YDict d)"
| "py_copy (YList xs) = Inr (YList xs)"
| "py_copy _ = Inl AttributeError"

text \<open>Sequencing of steps that may raise.\<close>

fun bindE :: "error + 'a \<Rightarrow> ('a \<Rightarrow> error + 'b) \<Rightarrow> error + 'b" where
  "bindE (Inl e) f = Inl e"
| "bindE (Inr x) f = f x"

section \<open>The document store\<close>

text \<open>
  \<^verbatim>\<open>load_yaml\<close>: the content of an existing file, with \<^verbatim>\<open>{}\<close> in place of a falsy
  content; a missing file is created holding \<^verbatim>\<open>{}\<close>.  The result is the loaded value
  and the file system after the call.  The directory of a missing file is taken to exist:
  the code opens the file for writing without creating the directory (only
  \<^verbatim>\<open>dump_yaml\<close> creates it) and raises \<^verbatim>\<open>FileNotFoundError\<close> when there is none.
\<close>

definition load_yaml :: "string \<Rightarrow> fs \<Rightarrow> yval \<times> fs" where
  "load_yaml path fs =
     (case fs path of
        Some v \<Rightarrow> (if truthy v then v else YDict fmempty, fs)
      | None \<Rightarrow> (YDict fmempty, fs(path \<mapsto> YDict fmempty)))"

definition dump_yaml :: "yval \<Rightarrow> string \<Rightarrow> fs \<Rightarrow> fs" where
  "dump_yaml data path fs = fs(path \<mapsto> data)"

text \<open>\<^verbatim>\<open>Path(path) if path is not None else (Path.cwd() / "config.yml")\<close>\<close>

definition resolve_path :: "string option \<Rightarrow> string" where
  "resolve_path path = (case path of Some p \<Rightarrow> p | None \<Rightarrow> ''config.yml'')"

section \<open>Stage 1: lattice configuration\<close>

definition ALLOWED_LATTICES_1D :: "string set" where
  "ALLOWED_LATTICES_1D = {''Chain''}"

definition ALLOWED_LATTICES_2D :: "string set" where
  "ALLOWED_LATTICES_2D = {''Square'', ''Triangular'', ''Honeycomb'', ''Kagome''}"

definition ALLOWED_BC :: "string set" where
  "ALLOWED_BC = {''open'', ''periodic''}"

text \<open>An optional argument as the value that is stored.\<close>

definition opt_int :: "int option \<Rightarrow> yval" where
  "opt_int x = (case x of None \<Rightarrow> YNone | Some i \<Rightarrow> YInt i)"

definition opt_str :: "string option \<Rightarrow> yval" where
  "opt_str x = (case x of None \<Rightarrow> YNone | Some s \<Rightarrow> YStr s)"

text \<open>The text of a value inside an f-string, for the two optional strings.\<close>

definition fmt_opt_str :: "string option \<Rightarrow> string" where
  "fmt_opt_str x = (case x of None \<Rightarrow> ''None'' | Some s \<Rightarrow> s)"

text \<open>Lines 79-86: the dimension, with \<^verbatim>\<open>Ly\<close> and \<^verbatim>\<open>bc_y\<close> reset for a chain.\<close>

definition lattice_dim ::
  "string \<Rightarrow> int option \<Rightarrow> string option \<Rightarrow> error + (nat \<times> int option \<times> string option)" where
  "lattice_dim lattice_type Ly bc_y =
     (if lattice_type \<in> ALLOWED_LATTICES_1D then Inr (1, None, None)
      else if lattice_type \<in> ALLOWED_LATTICES_2D then Inr (2, Ly, bc_y)
      else Inl (ValueError (''Unsupported lattice_type: '' @ lattice_type)))"

text \<open>Lines 88-91: the boundary conditions.\<close>

definition check_bc :: "nat \<Rightarrow> string \<Rightarrow> string option \<Rightarrow> error + unit" where
  "check_bc d bc_x bc_y =
     (if bc_x \<notin> ALLOWED_BC then Inl (ValueError (''Invalid bc_x: '' @ bc_x))
      else if d = 2 \<and> (case bc_y of None \<Rightarrow> True | Some b \<Rightarrow> b \<notin> ALLOWED_BC)
        then Inl (ValueError (''Invalid bc_y: '' @ fmt_opt_str bc_y))
      else Inr ())"

text \<open>Lines 102-117: the keys of the chosen dimension, the other dimension's keys removed.\<close>

definition lattice_keys ::
  "nat \<Rightarrow> int \<Rightarrow> int option \<Rightarrow> string \<Rightarrow> string option \<Rightarrow> yval \<Rightarrow> error + yval" where
  "lattice_keys d Lx Ly bc_x bc_y model_params =
     (if d = 1 then
        bindE (py_setitem model_params ''L'' (YInt Lx)) (\<lambda>mp.
        bindE (py_setitem mp ''bc_x'' (YStr bc_x)) (\<lambda>mp.
        bindE (py_pop mp ''Lx'') (\<lambda>mp.
        bindE (py_pop mp ''Ly'') (\<lambda>mp.
        py_pop mp ''bc_y''))))
      else if d = 2 then
        bindE (py_setitem model_params ''Lx'' (YInt Lx)) (\<lambda>mp.
        bindE (py_setitem mp ''Ly'' (opt_int Ly)) (\<lambda>mp.
        bindE (py_setitem mp ''bc_x'' (YStr bc_x)) (\<lambda>mp.
        bindE (py_setitem mp ''bc_y'' (opt_str bc_y)) (\<lambda>mp.
        py_pop mp ''L''))))
      else Inl (ValueError []))"

text \<open>
  Lines 95-117, between the load and the dump.  \<^verbatim>\<open>model_params\<close> is the object stored
  in \<^verbatim>\<open>data\<close>, so each change of it is a change of \<^verbatim>\<open>data["model_params"]\<close>: the
  document that is dumped holds the final \<^verbatim>\<open>model_params\<close>.
\<close>

definition lattice_body ::
  "string \<Rightarrow> nat \<Rightarrow> int \<Rightarrow> int option \<Rightarrow> string \<Rightarrow> string option \<Rightarrow> yval \<Rightarrow> error + yval" where
  "lattice_body lattice_type d Lx Ly bc_x bc_y data =
     bindE (py_setitem data ''model_class'' (YStr ''SpinModel'')) (\<lambda>data.
     bindE (py_setdefault data ''model_params'' (YDict fmempty)) (\<lambda>(model_params, data).
     bindE (py_setitem model_params ''lattice'' (YStr lattice_type)) (\<lambda>mp.
     bindE (py_setitem mp ''S'' (YFloat (1 / 2))) (\<lambda>mp.
     bindE (py_setitem mp ''bc_MPS'' (YStr ''finite'')) (\<lambda>mp.
     bindE (lattice_keys d Lx Ly bc_x bc_y mp) (\<lambda>mp.
     py_setitem data ''model_params'' mp))))))"

text \<open>
  \<^verbatim>\<open>spinhalf_lattice_config\<close>.  The text it returns (the source of the model's
  \<^verbatim>\<open>init_terms\<close>) is not modelled: the result is the error raised, if any, and the file
  system after the call.
\<close>

definition spinhalf_lattice_config ::
  "string \<Rightarrow> int \<Rightarrow> int option \<Rightarrow> string \<Rightarrow> string option \<Rightarrow> string option \<Rightarrow> fs
     \<Rightarrow> (error + unit) \<times> fs" where
  "spinhalf_lattice_config lattice_type Lx Ly bc_x bc_y path fs =
     (case lattice_dim lattice_type Ly bc_y of
        Inl e \<Rightarrow> (Inl e, fs)
      | Inr (d, Ly, bc_y) \<Rightarrow>
          (case check_bc d bc_x bc_y of
             Inl e \<Rightarrow> (Inl e, fs)
           | Inr _ \<Rightarrow>
               (let p = resolve_path path;
                    (data, fs1) = load_yaml p fs
                in case lattice_body lattice_type d Lx Ly bc_x bc_y data of
                     Inl e \<Rightarrow> (Inl e, fs1)
                   | Inr data' \<Rightarrow> (Inr (), dump_yaml data' p fs1))))"

section \<open>The external collaborators\<close>

text \<open>
  The model object built by \<^verbatim>\<open>tenpy.models.<model_class>(model_params)\<close>, as far as
  the stages read it: \<^verbatim>\<open>lat.site(0).conserve\<close>, \<^verbatim>\<open>lat.shape\<close> and
  \<^verbatim>\<open>lat.N_sites\<close>.
\<close>

record model =
  conserve :: yval
  shape :: "nat list"
  N_sites :: nat

text \<open>
  What the stages take from outside the repository: the model constructor (given the
  value of \<^verbatim>\<open>data["model_class"]\<close> and the parameters; it may raise), and the raw
  output of numpy's process-wide random source, read by \<^verbatim>\<open>np.random.randint\<close> and,
  one draw for each step, by \<^verbatim>\<open>np.random.shuffle\<close>.
\<close>

record env =
  model_ctor :: "yval \<Rightarrow> yval \<Rightarrow> error + model"
  randint_raw :: nat
  shuffle_raw :: "nat \<Rightarrow> nat"

subsection \<open>numpy\<close>

text \<open>\<^verbatim>\<open>np.random.randint(high)\<close>: a value below \<^verbatim>\<open>high\<close>, which must be positive.\<close>

definition np_randint :: "env \<Rightarrow> nat \<Rightarrow> error + int" where
  "np_randint e high =
     (if high = 0 then Inl (ValueError ''low >= high'')
      else Inr (int (randint_raw e mod high)))"

text \<open>
  \<^verbatim>\<open>np.random.shuffle\<close> on a one-dimensional array: for \<^verbatim>\<open>i\<close> from the last index
  down to 1, exchange the entries at \<^verbatim>\<open>i\<close> and at a drawn \<^verbatim>\<open>j\<close> in \<^verbatim>\<open>[0, i]\<close>.
\<close>

fun shuffle_steps :: "(nat \<Rightarrow> nat) \<Rightarrow> nat \<Rightarrow> 'a list \<Rightarrow> 'a list" where
  "shuffle_steps raw 0 xs = xs"
| "shuffle_steps raw (Suc i) xs =
     (let j = raw (Suc i) mod Suc (Suc i)
      in shuffle_steps raw i (xs[Suc i := xs ! j, j := xs ! Suc i]))"

definition np_shuffle :: "env \<Rightarrow> 'a list \<Rightarrow> 'a list" where
  "np_shuffle e xs = shuffle_steps (shuffle_raw e) (length xs - 1) xs"

text \<open>
  \<^verbatim>\<open>array.reshape(shape).tolist()\<close> in row-major order: the array is cut into as many
  consecutive blocks as the first extent says, each reshaped to the remaining extents.
  The empty shape is a single scalar.  The number of entries must be the product of the
  extents.
\<close>

fun chunks :: "nat \<Rightarrow> nat \<Rightarrow> 'a list \<Rightarrow> 'a list list" where
  "chunks 0 m xs = []"
| "chunks (Suc n) m xs = take m xs # chunks n m (drop m xs)"

fun reshape_tolist :: "nat list \<Rightarrow> yval list \<Rightarrow> yval" where
  "reshape_tolist [] xs = (case xs of [] \<Rightarrow> YNone | x # _ \<Rightarrow> x)"
| "reshape_tolist (n # ns) xs = YList (map (reshape_tolist ns) (chunks n (prod_list ns) xs))"

definition np_reshape :: "nat list \<Rightarrow> yval list \<Rightarrow> error + yval" where
  "np_reshape shp xs =
     (if prod_list shp \<noteq> length xs then Inl (ValueError ''cannot reshape array'')
      else Inr (reshape_tolist shp xs))"

subsection \<open>math\<close>

text \<open>\<^verbatim>\<open>int(x)\<close> of a float: truncation towards zero.\<close>

definition py_int :: "rat \<Rightarrow> int" where
  "py_int x = (if 0 \<le> x then \<lfloor>x\<rfloor> else \<lceil>x\<rceil>)"

text \<open>\<^verbatim>\<open>math.isclose(a, b)\<close> with its defaults \<^verbatim>\<open>rel_tol=1e-09, abs_tol=0.0\<close>.\<close>

definition rel_tol :: rat where
  "rel_tol = 1 / 10 ^ 9"

definition isclose :: "rat \<Rightarrow> rat \<Rightarrow> bool" where
  "isclose a b =
     (a = b \<or> \<bar>b - a\<bar> \<le> \<bar>rel_tol * b\<bar> \<or> \<bar>b - a\<bar> \<le> \<bar>rel_tol * a\<bar> \<or> \<bar>b - a\<bar> \<le> 0)"

section \<open>Stage 2: model parameters\<close>

text \<open>The loop of lines 148-149 over the items of \<^verbatim>\<open>params_dict\<close>, in their order.\<close>

fun merge_params :: "(string \<times> rat) list \<Rightarrow> yval \<Rightarrow> error + yval" where
  "merge_params [] model_params = Inr model_params"
| "merge_params ((name, val) # ps) model_params =
     bindE (py_setitem model_params name (YFloat val)) (merge_params ps)"

text \<open>Lines 147-151: the new document and the \<^verbatim>\<open>model_params\<close> in it.\<close>

definition model_config_body :: "(string \<times> rat) list \<Rightarrow> yval \<Rightarrow> error + (yval \<times> yval)" where
  "model_config_body params_dict data =
     bindE (py_setdefault data ''model_params'' (YDict fmempty)) (\<lambda>(model_params, data).
     bindE (merge_params params_dict model_params) (\<lambda>mp.
     bindE (py_setitem mp ''conserve'' (YStr ''best'')) (\<lambda>mp.
     bindE (py_setitem data ''model_params'' mp) (\<lambda>data.
     Inr (data, mp)))))"

text \<open>
  \<^verbatim>\<open>spinhalf_model_config\<close>: load, merge, dump (line 152), and only then the
  construction of the model (line 154).  The result is the conservation law read from
  the model.
\<close>

definition spinhalf_model_config ::
  "env \<Rightarrow> (string \<times> rat) list \<Rightarrow> string option \<Rightarrow> fs \<Rightarrow> (error + yval) \<times> fs" where
  "spinhalf_model_config e params_dict path fs =
     (let p = resolve_path path;
          (data, fs1) = load_yaml p fs
      in case model_config_body params_dict data of
           Inl err \<Rightarrow> (Inl err, fs1)
         | Inr (data', model_params) \<Rightarrow>
             (let fs2 = dump_yaml data' p fs1
              in case bindE (py_getitem data' ''model_class'')
                        (\<lambda>mc. model_ctor e mc model_params) of
                   Inl err \<Rightarrow> (Inl err, fs2)
                 | Inr m \<Rightarrow> (Inr (conserve m), fs2)))"

section \<open>Stage 3: initial state\<close>

text \<open>
  Line 174.  The product \<^verbatim>\<open>2 * tot_charge\<close> is exact unless it exceeds the largest
  double; then it is \<^verbatim>\<open>inf\<close> and \<^verbatim>\<open>int\<close> raises \<^verbatim>\<open>OverflowError\<close>, which is not
  modelled.
\<close>

definition not_half_integer :: "rat option \<Rightarrow> bool" where
  "not_half_integer tot_charge =
     (case tot_charge of
        None \<Rightarrow> False
      | Some q \<Rightarrow> \<not> isclose (2 * q) (of_int (py_int (2 * q))))"

text \<open>
  Lines 191-200: the numbers of up and down sites.  The two sums are exact here; the code
  rounds each to the nearest double.
\<close>

definition occupation :: "env \<Rightarrow> rat option \<Rightarrow> nat \<Rightarrow> error + (int \<times> int)" where
  "occupation e tot_charge n_sites =
     (case tot_charge of
        None \<Rightarrow>
          bindE (np_randint e n_sites) (\<lambda>n_up. Inr (n_up, int n_sites - n_up))
      | Some q \<Rightarrow>
          (let n_up = q + of_nat n_sites / 2;
               n_dn = - q + of_nat n_sites / 2
           in if \<not> (isclose n_up (of_int (py_int n_up)) \<and> isclose n_dn (of_int (py_int n_dn)))
              then Inl (ValueError ''Inconsistent tot_charge and system size! '')
              else Inr (py_int n_up, py_int n_dn)))"

text \<open>
  Lines 202-204.  A list times a negative number is the empty list, which is what
  \<^term>\<open>nat\<close> of a negative number gives \<^term>\<open>replicate\<close>.
\<close>

definition product_state :: "env \<Rightarrow> nat list \<Rightarrow> int \<Rightarrow> int \<Rightarrow> error + yval" where
  "product_state e shp n_up n_dn =
     (let init = replicate (nat n_up) (YStr ''up'') @ replicate (nat n_dn) (YStr ''down'');
          init = np_shuffle e init
      in np_reshape shp init)"

text \<open>
  Lines 179-186: the model rebuilt from a copy of the document's \<^verbatim>\<open>model_params\<close>, and
  the check of its conservation law.
\<close>

definition model_of_document :: "env \<Rightarrow> yval \<Rightarrow> error + model" where
  "model_of_document e data =
     bindE (py_get data ''model_params'' (YDict fmempty)) (\<lambda>mp0.
     bindE (py_copy mp0) (\<lambda>model_params.
     bindE (py_getitem data ''model_class'') (\<lambda>mc.
     bindE (model_ctor e mc model_params) (\<lambda>m.
     if conserve m \<notin> {YStr ''Sz'', YNone}
     then Inl (ValueError ''Symmetry not yet supported! '')
     else Inr m))))"

text \<open>Lines 206-208: the two entries of \<^verbatim>\<open>initial_state_params\<close>.\<close>

definition write_initial_state :: "yval \<Rightarrow> yval \<Rightarrow> error + yval" where
  "write_initial_state init data =
     bindE (py_setdefault data ''initial_state_params'' (YDict fmempty)) (\<lambda>(isp, data).
     bindE (py_setitem isp ''method'' (YStr ''lat_product_state'')) (\<lambda>isp.
     bindE (py_setitem isp ''product_state'' init) (\<lambda>isp.
     py_setitem data ''initial_state_params'' isp)))"

text \<open>Lines 179-208, between the load and the dump.\<close>

definition initial_state_body :: "env \<Rightarrow> rat option \<Rightarrow> yval \<Rightarrow> error + yval" where
  "initial_state_body e tot_charge data =
     bindE (model_of_document e data) (\<lambda>m.
     bindE (occupation e tot_charge (N_sites m)) (\<lambda>(n_up, n_dn).
     bindE (product_state e (shape m) n_up n_dn) (\<lambda>init.
     write_initial_state init data)))"

definition spinhalf_initial_state ::
  "env \<Rightarrow> rat option \<Rightarrow> string option \<Rightarrow> fs \<Rightarrow> (error + unit) \<times> fs" where
  "spinhalf_initial_state e tot_charge path fs =
     (if not_half_integer tot_charge
      then (Inl (ValueError ''tot_charge is not half integer! ''), fs)
      else
        (let p = resolve_path path;
             (data, fs1) = load_yaml p fs
         in case initial_state_body e tot_charge data of
              Inl err \<Rightarrow> (Inl err, fs1)
            | Inr data' \<Rightarrow> (Inr (), dump_yaml data' p fs1)))"

section \<open>Stage 4: algorithm and measurement parameters\<close>

definition algorithm_params :: "int \<Rightarrow> int \<Rightarrow> yval" where
  "algorithm_params chi_max max_sweeps =
     YDict (fmap_of_list
       [(''algorithm'', YStr ''TwoSiteDMRGEngine''),
        (''max_sweeps'', YInt max_sweeps),
        (''mixer'', YBool False),
        (''trunc_params'', YDict (fmap_of_list
           [(''chi_max'', YInt chi_max),
            (''svd_min'', YFloat (1 / 10 ^ 8))]))])"

definition connect_measurements :: yval where
  "connect_measurements =
     YList
       [YList [YStr ''tenpy.simulations.measurement'', YStr ''m_onsite_expectation_value'',
               YDict (fmap_of_list [(''opname'', YStr ''Sz'')])],
        YList [YStr ''psi_method'', YStr ''wrap correlation_function'',
               YDict (fmap_of_list
                 [(''results_key'', YStr ''<Sz_i Sz_j>''),
                  (''ops1'', YStr ''Sz''), (''ops2'', YStr ''Sz'')])],
        YList [YStr ''psi_method'', YStr ''wrap correlation_function'',
               YDict (fmap_of_list
                 [(''results_key'', YStr ''<Sp_i Sm_j>''),
                  (''ops1'', YStr ''Sp''), (''ops2'', YStr ''Sm'')])]]"

definition output_filename_params :: yval where
  "output_filename_params =
     YDict (fmap_of_list [(''prefix'', YStr ''result''), (''suffix'', YStr ''.h5'')])"

text \<open>Lines 232-253.\<close>

definition dmrg_body :: "int \<Rightarrow> int \<Rightarrow> yval \<Rightarrow> error + yval" where
  "dmrg_body chi_max max_sweeps data =
     bindE (py_setitem data ''simulation_class'' (YStr ''GroundStateSearch'')) (\<lambda>data.
     bindE (py_setitem data ''algorithm_params'' (algorithm_params chi_max max_sweeps)) (\<lambda>data.
     bindE (py_setitem data ''measure_initial'' (YBool False)) (\<lambda>data.
     bindE (py_setitem data ''connect_measurements'' connect_measurements) (\<lambda>data.
     py_setitem data ''output_filename_params'' output_filename_params))))"

definition dmrg_and_measu_config ::
  "int \<Rightarrow> int \<Rightarrow> string option \<Rightarrow> fs \<Rightarrow> (error + unit) \<times> fs" where
  "dmrg_and_measu_config chi_max max_sweeps path fs =
     (let p = resolve_path path;
          (data, fs1) = load_yaml p fs
      in case dmrg_body chi_max max_sweeps data of
           Inl err \<Rightarrow> (Inl err, fs1)
         | Inr data' \<Rightarrow> (Inr (), dump_yaml data' p fs1))"

section \<open>Observing the persisted document\<close>

text \<open>The top-level section \<open>k\<close> of the document stored at a path, if there is one.\<close>

definition doc_section :: "fs \<Rightarrow> string \<Rightarrow> string \<Rightarrow> yval option" where
  "doc_section fs path k =
     (case fs path of Some (YDict d) \<Rightarrow> fmlookup d k | _ \<Rightarrow> None)"

text \<open>
  The entries of a nested list in row-major order, and what it is for a nested list to
  have given extents with a label (a string) in every place.
\<close>

fun flatten :: "yval \<Rightarrow> yval list" where
  "flatten (YList xs) = concat (map flatten xs)"
| "flatten v = [v]"

definition is_label :: "yval \<Rightarrow> bool" where
  "is_label v = (case v of YStr s \<Rightarrow> True | _ \<Rightarrow> False)"

fun has_shape :: "nat list \<Rightarrow> yval \<Rightarrow> bool" where
  "has_shape [] v = is_label v"
| "has_shape (n # ns) v =
     (case v of YList xs \<Rightarrow> length xs = n \<and> list_all (has_shape ns) xs | _ \<Rightarrow> False)"

section \<open>An example configuration\<close>

text \<open>
  The document that stage 1 writes for a chain of four sites, and a stand-in for the
  external model constructor on it: it accepts the spin-1/2 chain of four sites, for which
  it reports the conserved \<^verbatim>\<open>Sz\<close>, four sites and the shape \<^verbatim>\<open>(4, 1)\<close>, and it rejects
  every other parameter set.  They are the concrete inputs of the examples below.
\<close>

definition chain4_document :: yval where
  "chain4_document =
     YDict (fmap_of_list
       [(''model_class'', YStr ''SpinModel''),
        (''model_params'', YDict (fmap_of_list
           [(''lattice'', YStr ''Chain''), (''S'', YFloat (1 / 2)),
            (''bc_MPS'', YStr ''finite''), (''L'', YInt 4), (''bc_x'', YStr ''open'')]))])"

definition chain4_env :: env where
  "chain4_env =
     \<lparr>model_ctor = (\<lambda>mc mp.
        if mc = YStr ''SpinModel'' \<and> py_getitem mp ''L'' = Inr (YInt 4) \<and>
           py_getitem mp ''S'' = Inr (YFloat (1 / 2))
        then Inr \<lparr>conserve = YStr ''Sz'', shape = [4, 1], N_sites = 4\<rparr>
        else Inl (ValueError ''rejected'')),
      randint_raw = 0,
      shuffle_raw = (\<lambda>i. 0)\<rparr>"

section \<open>Basic facts about the value operations\<close>

lemma py_setitem_Inr_iff: "py_setitem v k x = Inr y \<longleftrightarrow> (\<exists>d. v = YDict d \<and> y = YDict (fmupd k x d))"
  by (cases v) auto

lemma bindE_Inr_iff: "bindE m f = Inr y \<longleftrightarrow> (\<exists>x. m = Inr x \<and> f x = Inr y)"
  by (cases m) auto

lemma py_setdefault_dict:
  "py_setdefault (YDict d) k dflt =
     Inr (case fmlookup d k of None \<Rightarrow> dflt | Some u \<Rightarrow> u,
          YDict (fmupd k (case fmlookup d k of None \<Rightarrow> dflt | Some u \<Rightarrow> u) d))"
proof (cases "fmlookup d k")
  case None
  then show ?thesis by simp
next
  case (Some u)
  have "fmupd k u d = d"
    by (rule fmap_ext) (auto simp: Some)
  with Some show ?thesis by simp
qed

section \<open>The document store: persist, then load\<close>

text \<open>
  Claim C8.  Persisting a document (a mapping) with \<^verbatim>\<open>dump_yaml\<close> and loading it with
  \<^verbatim>\<open>load_yaml\<close> from the same path gives the same document back and leaves the file as
  written.  The empty mapping is falsy, and \<^verbatim>\<open>or {}\<close> gives the empty mapping again.
  (A falsy value that is not a mapping, an empty list say, is not a document: it would be
  loaded as the empty mapping.)
\<close>

theorem load_after_dump:
  "load_yaml path (dump_yaml (YDict doc) path fs) = (YDict doc, dump_yaml (YDict doc) path fs)"
  by (simp add: load_yaml_def dump_yaml_def)

section \<open>Stage 1\<close>

lemma lattice_body_not_dict:
  "\<forall>doc. data \<noteq> YDict doc \<Longrightarrow> lattice_body lt d Lx Ly bc_x bc_y data = Inl TypeError"
  by (cases data) (simp_all add: lattice_body_def)

lemma lattice_body_Inr_1:
  assumes "lattice_body lt 1 Lx Ly bc_x bc_y data = Inr data'"
  shows "\<exists>doc mp. data' = YDict doc \<and> fmlookup doc ''model_params'' = Some (YDict mp) \<and>
           fmlookup mp ''L'' = Some (YInt Lx) \<and> fmlookup mp ''bc_x'' = Some (YStr bc_x) \<and>
           fmlookup mp ''Lx'' = None \<and> fmlookup mp ''Ly'' = None \<and> fmlookup mp ''bc_y'' = None"
proof (cases data)
  case (YDict doc)
  show ?thesis
  proof (cases "fmlookup doc ''model_params''")
    case None
    with assms YDict show ?thesis
      by (auto simp: lattice_body_def py_setdefault_dict lattice_keys_def simp del: py_setdefault.simps)
  next
    case (Some u)
    with assms YDict show ?thesis
      by (cases u) (auto simp: lattice_body_def py_setdefault_dict lattice_keys_def simp del: py_setdefault.simps)
  qed
qed (use assms in \<open>simp_all add: lattice_body_not_dict\<close>)

lemma lattice_body_Inr_2:
  assumes "lattice_body lt 2 Lx Ly bc_x bc_y data = Inr data'"
  shows "\<exists>doc mp. data' = YDict doc \<and> fmlookup doc ''model_params'' = Some (YDict mp) \<and>
           fmlookup mp ''Lx'' = Some (YInt Lx) \<and> fmlookup mp ''Ly'' = Some (opt_int Ly) \<and>
           fmlookup mp ''bc_x'' = Some (YStr bc_x) \<and> fmlookup mp ''bc_y'' = Some (opt_str bc_y) \<and>
           fmlookup mp ''L'' = None"
proof (cases data)
  case (YDict doc)
  show ?thesis
  proof (cases "fmlookup doc ''model_params''")
    case None
    with assms YDict show ?thesis
      by (auto simp: lattice_body_def py_setdefault_dict lattice_keys_def simp del: py_setdefault.simps)
  next
    case (Some u)
    with assms YDict show ?thesis
      by (cases u) (auto simp: lattice_body_def py_setdefault_dict lattice_keys_def simp del: py_setdefault.simps)
  qed
qed (use assms in \<open>simp_all add: lattice_body_not_dict\<close>)

lemma spinhalf_lattice_config_Inr:
  assumes "spinhalf_lattice_config lt Lx Ly bc_x bc_y path fs = (Inr (), fs')"
  shows "\<exists>d Ly' bc_y' data'.
           lattice_dim lt Ly bc_y = Inr (d, Ly', bc_y') \<and> check_bc d bc_x bc_y' = Inr () \<and>
           lattice_body lt d Lx Ly' bc_x bc_y' (fst (load_yaml (resolve_path path) fs)) = Inr data' \<and>
           fs' = dump_yaml data' (resolve_path path) (snd (load_yaml (resolve_path path) fs))"
  using assms
  by (auto simp: spinhalf_lattice_config_def Let_def split: sum.splits prod.splits)

lemma lattice_body_Inl:
  assumes "lattice_body lt d Lx Ly bc_x bc_y data = Inl err" and "d = 1 \<or> d = 2"
  shows "err = TypeError"
proof (cases data)
  case (YDict doc)
  show ?thesis
  proof (cases "fmlookup doc ''model_params''")
    case None
    with assms YDict show ?thesis
      by (auto simp: lattice_body_def py_setdefault_dict lattice_keys_def simp del: py_setdefault.simps)
  next
    case (Some u)
    with assms YDict show ?thesis
      by (cases u) (auto simp: lattice_body_def py_setdefault_dict lattice_keys_def simp del: py_setdefault.simps)
  qed
qed (use assms in \<open>simp_all add: lattice_body_not_dict\<close>)

lemma lattice_keys_of_lookups:
  assumes "fmlookup mp ''L'' = l" "fmlookup mp ''Lx'' = lx" "fmlookup mp ''Ly'' = ly"
    "fmlookup mp ''bc_x'' = bx" "fmlookup mp ''bc_y'' = by"
  shows "fmdom' mp \<inter> {''L'', ''Lx'', ''Ly'', ''bc_x'', ''bc_y''} =
           (if l = None then {} else {''L''}) \<union> (if lx = None then {} else {''Lx''}) \<union>
           (if ly = None then {} else {''Ly''}) \<union> (if bx = None then {} else {''bc_x''}) \<union>
           (if by = None then {} else {''bc_y''})"
proof -
  have mem: "\<And>k. k \<in> fmdom' mp \<longleftrightarrow> fmlookup mp k \<noteq> None"
    by (simp add: fmdom'_def dom_def)
  show ?thesis
    unfolding Int_insert_right mem assms Int_empty_right
    by (simp only: if_distrib [of "\<lambda>A. A \<union> _"] split: if_splits) auto
qed

text \<open>
  Claim C3.  After a successful call of \<^verbatim>\<open>spinhalf_lattice_config\<close>, whatever the file
  system held before (so also after an earlier call with the other dimension on the same
  path), the persisted \<^verbatim>\<open>model_params\<close> is a mapping, and of the five lattice keys it
  holds exactly \<^verbatim>\<open>L\<close> and \<^verbatim>\<open>bc_x\<close> for a 1-D lattice type, and exactly \<^verbatim>\<open>Lx\<close>,
  \<^verbatim>\<open>Ly\<close>, \<^verbatim>\<open>bc_x\<close> and \<^verbatim>\<open>bc_y\<close> for a 2-D lattice type.
\<close>

theorem lattice_config_dimension_keys:
  assumes "spinhalf_lattice_config lt Lx Ly bc_x bc_y path fs = (Inr (), fs')"
  shows "\<exists>mp. doc_section fs' (resolve_path path) ''model_params'' = Some (YDict mp) \<and>
           (if lt \<in> ALLOWED_LATTICES_1D
            then fmdom' mp \<inter> {''L'', ''Lx'', ''Ly'', ''bc_x'', ''bc_y''} = {''L'', ''bc_x''}
            else lt \<in> ALLOWED_LATTICES_2D \<and>
                 fmdom' mp \<inter> {''L'', ''Lx'', ''Ly'', ''bc_x'', ''bc_y''} =
                   {''Lx'', ''Ly'', ''bc_x'', ''bc_y''})"
proof -
  from spinhalf_lattice_config_Inr [OF assms] obtain d Ly' bc_y' data' where
    dim: "lattice_dim lt Ly bc_y = Inr (d, Ly', bc_y')" and
    body: "lattice_body lt d Lx Ly' bc_x bc_y' (fst (load_yaml (resolve_path path) fs)) = Inr data'" and
    fs': "fs' = dump_yaml data' (resolve_path path) (snd (load_yaml (resolve_path path) fs))"
    by blast
  show ?thesis
  proof (cases "lt \<in> ALLOWED_LATTICES_1D")
    case True
    with dim have "d = 1" by (simp add: lattice_dim_def)
    with body lattice_body_Inr_1 obtain doc mp where
      doc: "data' = YDict doc" "fmlookup doc ''model_params'' = Some (YDict mp)" and
      keys: "fmlookup mp ''L'' = Some (YInt Lx)" "fmlookup mp ''Lx'' = None"
        "fmlookup mp ''Ly'' = None" "fmlookup mp ''bc_x'' = Some (YStr bc_x)"
        "fmlookup mp ''bc_y'' = None"
      by blast
    have "fmdom' mp \<inter> {''L'', ''Lx'', ''Ly'', ''bc_x'', ''bc_y''} = {''L'', ''bc_x''}"
      unfolding lattice_keys_of_lookups [OF keys] by (simp add: insert_commute)
    moreover have "doc_section fs' (resolve_path path) ''model_params'' = Some (YDict mp)"
      by (simp add: fs' doc doc_section_def dump_yaml_def)
    ultimately show ?thesis using True by simp
  next
    case False
    with dim have "d = 2" and two: "lt \<in> ALLOWED_LATTICES_2D"
      by (simp_all add: lattice_dim_def split: if_splits)
    with body lattice_body_Inr_2 obtain doc mp where
      doc: "data' = YDict doc" "fmlookup doc ''model_params'' = Some (YDict mp)" and
      keys: "fmlookup mp ''L'' = None" "fmlookup mp ''Lx'' = Some (YInt Lx)"
        "fmlookup mp ''Ly'' = Some (opt_int Ly')" "fmlookup mp ''bc_x'' = Some (YStr bc_x)"
        "fmlookup mp ''bc_y'' = Some (opt_str bc_y')"
      by blast
    have "fmdom' mp \<inter> {''L'', ''Lx'', ''Ly'', ''bc_x'', ''bc_y''} =
            {''Lx'', ''Ly'', ''bc_x'', ''bc_y''}"
      unfolding lattice_keys_of_lookups [OF keys] by (simp add: insert_commute)
    moreover have "doc_section fs' (resolve_path path) ''model_params'' = Some (YDict mp)"
      by (simp add: fs' doc doc_section_def dump_yaml_def)
    ultimately show ?thesis using False two by simp
  qed
qed

text \<open>A 2-D call followed by a 1-D call on the same path: only the 1-D keys remain.\<close>

theorem lattice_config_dimension_keys_witness:
  "spinhalf_lattice_config ''Chain'' 4 None ''open'' None (Some ''config.yml'')
     (snd (spinhalf_lattice_config ''Square'' 4 (Some 2) ''open'' (Some ''periodic'')
             (Some ''config.yml'') Map.empty)) =
   (Inr (),
    snd (spinhalf_lattice_config ''Chain'' 4 None ''open'' None (Some ''config.yml'')
      (snd (spinhalf_lattice_config ''Square'' 4 (Some 2) ''open'' (Some ''periodic'')
              (Some ''config.yml'') Map.empty)))) \<and>
   (\<exists>mp. doc_section
           (snd (spinhalf_lattice_config ''Chain'' 4 None ''open'' None (Some ''config.yml'')
             (snd (spinhalf_lattice_config ''Square'' 4 (Some 2) ''open'' (Some ''periodic'')
                     (Some ''config.yml'') Map.empty))))
           ''config.yml'' ''model_params'' = Some (YDict mp) \<and>
         fmdom' mp \<inter> {''L'', ''Lx'', ''Ly'', ''bc_x'', ''bc_y''} = {''L'', ''bc_x''})"
proof -
  have ok: "fst (spinhalf_lattice_config ''Chain'' 4 None ''open'' None (Some ''config.yml'')
     (snd (spinhalf_lattice_config ''Square'' 4 (Some 2) ''open'' (Some ''periodic'')
             (Some ''config.yml'') Map.empty))) = Inr ()"
    by (simp add: spinhalf_lattice_config_def lattice_dim_def check_bc_def ALLOWED_LATTICES_1D_def
        ALLOWED_LATTICES_2D_def ALLOWED_BC_def load_yaml_def dump_yaml_def resolve_path_def
        lattice_body_def lattice_keys_def opt_int_def opt_str_def)
  then have run: "spinhalf_lattice_config ''Chain'' 4 None ''open'' None (Some ''config.yml'')
     (snd (spinhalf_lattice_config ''Square'' 4 (Some 2) ''open'' (Some ''periodic'')
             (Some ''config.yml'') Map.empty)) =
   (Inr (),
    snd (spinhalf_lattice_config ''Chain'' 4 None ''open'' None (Some ''config.yml'')
      (snd (spinhalf_lattice_config ''Square'' 4 (Some 2) ''open'' (Some ''periodic'')
              (Some ''config.yml'') Map.empty))))"
    by (metis prod.collapse)
  from lattice_config_dimension_keys [OF run] run show ?thesis
    by (simp add: resolve_path_def ALLOWED_LATTICES_1D_def)
qed

lemma chain_params_eq:
  "fmdrop ''bc_y'' (fmdrop ''Ly'' (fmdrop ''Lx''
     (fmupd ''bc_x'' (YStr ''open'') (fmupd ''L'' (YInt 4)
       (fmupd ''bc_MPS'' (YStr ''finite'') (fmupd ''S'' (YFloat (1 / 2))
         (fmupd ''lattice'' (YStr ''Chain'') fmempty))))))) =
   fmap_of_list
     [(''lattice'', YStr ''Chain''), (''S'', YFloat (1 / 2)), (''bc_MPS'', YStr ''finite''),
      (''L'', YInt 4), (''bc_x'', YStr ''open'')]"
  by (rule fmap_ext) auto

text \<open>
  Claim C6.  Starting from an empty document, that is when the load of the path returns
  the empty mapping, the call with lattice type \<^verbatim>\<open>Chain\<close>, extent 4 and the default
  boundary condition \<^verbatim>\<open>open\<close> succeeds, and the persisted \<^verbatim>\<open>model_params\<close> is exactly
  \<^verbatim>\<open>{lattice: Chain, S: 0.5, bc_MPS: finite, L: 4, bc_x: open}\<close>.
\<close>

theorem lattice_config_chain_scenario:
  assumes "load_yaml p fs = (YDict fmempty, fs1)"
  shows "fst (spinhalf_lattice_config ''Chain'' 4 Ly ''open'' bc_y (Some p) fs) = Inr () \<and>
         doc_section (snd (spinhalf_lattice_config ''Chain'' 4 Ly ''open'' bc_y (Some p) fs))
             p ''model_params'' =
           Some (YDict (fmap_of_list
             [(''lattice'', YStr ''Chain''), (''S'', YFloat (1 / 2)), (''bc_MPS'', YStr ''finite''),
              (''L'', YInt 4), (''bc_x'', YStr ''open'')]))"
  using assms
  by (simp add: spinhalf_lattice_config_def lattice_dim_def check_bc_def ALLOWED_LATTICES_1D_def
      ALLOWED_BC_def dump_yaml_def resolve_path_def lattice_body_def lattice_keys_def
      doc_section_def chain_params_eq del: fmap_of_list_simps)

text \<open>A file that holds the empty mapping.\<close>

theorem lattice_config_chain_scenario_witness:
  "load_yaml ''config.yml'' [''config.yml'' \<mapsto> YDict fmempty] =
     (YDict fmempty, [''config.yml'' \<mapsto> YDict fmempty]) \<and>
   fst (spinhalf_lattice_config ''Chain'' 4 None ''open'' (Some ''periodic'') (Some ''config.yml'')
          [''config.yml'' \<mapsto> YDict fmempty]) = Inr () \<and>
   doc_section
       (snd (spinhalf_lattice_config ''Chain'' 4 None ''open'' (Some ''periodic'')
               (Some ''config.yml'') [''config.yml'' \<mapsto> YDict fmempty]))
       ''config.yml'' ''model_params'' =
     Some (YDict (fmap_of_list
       [(''lattice'', YStr ''Chain''), (''S'', YFloat (1 / 2)), (''bc_MPS'', YStr ''finite''),
        (''L'', YInt 4), (''bc_x'', YStr ''open'')]))"
proof -
  have ld: "load_yaml ''config.yml'' [''config.yml'' \<mapsto> YDict fmempty] =
     (YDict fmempty, [''config.yml'' \<mapsto> YDict fmempty])"
    by (simp add: load_yaml_def)
  from lattice_config_chain_scenario [OF ld, of None "Some ''periodic''"] ld show ?thesis
    by blast
qed

text \<open>
  Claim C9.  For a 1-D lattice type the arguments \<^verbatim>\<open>Ly\<close> and \<^verbatim>\<open>bc_y\<close> are discarded
  before the boundary conditions are checked: the call behaves as the call with both set
  to \<^verbatim>\<open>None\<close>, it never raises the error for an invalid \<^verbatim>\<open>bc_y\<close>, and when it
  succeeds the persisted \<^verbatim>\<open>model_params\<close> has neither \<^verbatim>\<open>Ly\<close> nor \<^verbatim>\<open>bc_y\<close>.
\<close>

theorem chain_discards_Ly_bc_y:
  assumes "lt \<in> ALLOWED_LATTICES_1D"
  shows "spinhalf_lattice_config lt Lx Ly bc_x bc_y path fs =
           spinhalf_lattice_config lt Lx None bc_x None path fs \<and>
         fst (spinhalf_lattice_config lt Lx Ly bc_x bc_y path fs) \<noteq>
           Inl (ValueError (''Invalid bc_y: '' @ fmt_opt_str bc_y)) \<and>
         (fst (spinhalf_lattice_config lt Lx Ly bc_x bc_y path fs) = Inr () \<longrightarrow>
           (\<exists>mp. doc_section (snd (spinhalf_lattice_config lt Lx Ly bc_x bc_y path fs))
                   (resolve_path path) ''model_params'' = Some (YDict mp) \<and>
                 fmlookup mp ''Ly'' = None \<and> fmlookup mp ''bc_y'' = None))"
proof (intro conjI impI)
  show same: "spinhalf_lattice_config lt Lx Ly bc_x bc_y path fs =
      spinhalf_lattice_config lt Lx None bc_x None path fs"
    using assms by (simp add: spinhalf_lattice_config_def lattice_dim_def)
  show "fst (spinhalf_lattice_config lt Lx Ly bc_x bc_y path fs) \<noteq>
      Inl (ValueError (''Invalid bc_y: '' @ fmt_opt_str bc_y))"
    using assms
    by (auto simp: spinhalf_lattice_config_def lattice_dim_def check_bc_def Let_def
        split: sum.splits prod.splits dest: lattice_body_Inl)
  assume "fst (spinhalf_lattice_config lt Lx Ly bc_x bc_y path fs) = Inr ()"
  then have run: "spinhalf_lattice_config lt Lx Ly bc_x bc_y path fs =
      (Inr (), snd (spinhalf_lattice_config lt Lx Ly bc_x bc_y path fs))"
    by (metis prod.collapse)
  from spinhalf_lattice_config_Inr [OF run] obtain d Ly' bc_y' data' where
    dim: "lattice_dim lt Ly bc_y = Inr (d, Ly', bc_y')" and
    body: "lattice_body lt d Lx Ly' bc_x bc_y' (fst (load_yaml (resolve_path path) fs)) = Inr data'" and
    fs': "snd (spinhalf_lattice_config lt Lx Ly bc_x bc_y path fs) =
            dump_yaml data' (resolve_path path) (snd (load_yaml (resolve_path path) fs))"
    by blast
  from dim assms have "d = 1" by (simp add: lattice_dim_def)
  with body lattice_body_Inr_1 obtain doc mp where
    "data' = YDict doc" "fmlookup doc ''model_params'' = Some (YDict mp)"
    "fmlookup mp ''Ly'' = None" "fmlookup mp ''bc_y'' = None"
    by blast
  then show "\<exists>mp. doc_section (snd (spinhalf_lattice_config lt Lx Ly bc_x bc_y path fs))
                   (resolve_path path) ''model_params'' = Some (YDict mp) \<and>
                 fmlookup mp ''Ly'' = None \<and> fmlookup mp ''bc_y'' = None"
    by (simp add: fs' doc_section_def dump_yaml_def)
qed

text \<open>A chain with \<^verbatim>\<open>bc_y = "garbage"\<close> succeeds.\<close>

theorem chain_discards_Ly_bc_y_witness:
  "''Chain'' \<in> ALLOWED_LATTICES_1D \<and>
   fst (spinhalf_lattice_config ''Chain'' 4 (Some 7) ''open'' (Some ''garbage'') None Map.empty) =
     Inr () \<and>
   (\<exists>mp. doc_section
           (snd (spinhalf_lattice_config ''Chain'' 4 (Some 7) ''open'' (Some ''garbage'') None Map.empty))
           (resolve_path None) ''model_params'' = Some (YDict mp) \<and>
         fmlookup mp ''Ly'' = None \<and> fmlookup mp ''bc_y'' = None)"
proof -
  have one: "''Chain'' \<in> ALLOWED_LATTICES_1D"
    by (simp add: ALLOWED_LATTICES_1D_def)
  have ok: "fst (spinhalf_lattice_config ''Chain'' 4 (Some 7) ''open'' (Some ''garbage'') None Map.empty) =
     Inr ()"
    by (simp add: spinhalf_lattice_config_def lattice_dim_def check_bc_def ALLOWED_LATTICES_1D_def
        ALLOWED_BC_def load_yaml_def dump_yaml_def resolve_path_def lattice_body_def lattice_keys_def)
  from chain_discards_Ly_bc_y [OF one, of 4 "Some 7" "''open''" "Some ''garbage''" None Map.empty] one ok
  show ?thesis
    by blast
qed

text \<open>A call of stage 1 that fails has written nothing but the empty document of a first load.\<close>

lemma lattice_config_failure:
  assumes "fst (spinhalf_lattice_config lt Lx Ly bc_x bc_y path fs) = Inl err"
  shows "snd (spinhalf_lattice_config lt Lx Ly bc_x bc_y path fs) = fs \<or>
         snd (spinhalf_lattice_config lt Lx Ly bc_x bc_y path fs) =
           snd (load_yaml (resolve_path path) fs)"
  using assms
  by (auto simp: spinhalf_lattice_config_def Let_def split: prod.splits sum.splits)

section \<open>Stage 2\<close>

lemma model_config_body_Inr:
  assumes "model_config_body ps data = Inr (data', mp)"
  shows "\<exists>doc. data = YDict doc \<and> data' = YDict (fmupd ''model_params'' mp doc)"
proof (cases data)
  case (YDict doc)
  with assms show ?thesis
    by (auto simp: model_config_body_def py_setdefault_dict py_setitem_Inr_iff bindE_Inr_iff
        simp del: py_setdefault.simps)
qed (use assms in \<open>simp_all add: model_config_body_def\<close>)

text \<open>
  Claim C10.  Whatever \<^verbatim>\<open>spinhalf_model_config\<close> is given and whether it succeeds or
  raises, every top-level section of the document at the path other than
  \<^verbatim>\<open>model_params\<close> is after the call what it was before.
\<close>

theorem model_config_frame:
  assumes "k \<noteq> ''model_params''"
  shows "doc_section (snd (spinhalf_model_config e params_dict path fs)) (resolve_path path) k =
           doc_section fs (resolve_path path) k"
proof -
  let ?p = "resolve_path path"
  obtain data fs1 where ld: "load_yaml ?p fs = (data, fs1)"
    by (cases "load_yaml ?p fs")
  show ?thesis
  proof (cases "model_config_body params_dict data")
    case (Inl err)
    with ld have "snd (spinhalf_model_config e params_dict path fs) = fs1"
      by (simp add: spinhalf_model_config_def)
    moreover from ld have "doc_section fs1 ?p k = doc_section fs ?p k"
      by (auto simp: load_yaml_def doc_section_def split: option.splits)
    ultimately show ?thesis by simp
  next
    case (Inr r)
    obtain data' mp where r: "r = (data', mp)" by (cases r)
    from model_config_body_Inr Inr r obtain doc where
      doc: "data = YDict doc" "data' = YDict (fmupd ''model_params'' mp doc)"
      by blast
    from ld Inr r have "snd (spinhalf_model_config e params_dict path fs) = dump_yaml data' ?p fs1"
      by (simp add: spinhalf_model_config_def Let_def split: sum.splits)
    then have "doc_section (snd (spinhalf_model_config e params_dict path fs)) ?p k = fmlookup doc k"
      using assms doc by (simp add: doc_section_def dump_yaml_def)
    moreover from ld doc have "doc_section fs ?p k = fmlookup doc k"
      by (auto simp: load_yaml_def doc_section_def split: option.splits if_splits yval.splits)
    ultimately show ?thesis by simp
  qed
qed

theorem model_config_frame_witness:
  "''model_class'' \<noteq> ''model_params'' \<and>
   doc_section
     (snd (spinhalf_model_config
        \<lparr>model_ctor = (\<lambda>mc mp. Inl (ValueError ''rejected'')), randint_raw = 0,
         shuffle_raw = (\<lambda>i. 0)\<rparr>
        [(''Jz'', 1)] None
        [''config.yml'' \<mapsto> YDict (fmupd ''model_class'' (YStr ''SpinModel'') fmempty)]))
     (resolve_path None) ''model_class'' = Some (YStr ''SpinModel'')"
proof -
  have ne: "''model_class'' \<noteq> ''model_params''" by simp
  from model_config_frame [OF ne, of
      "\<lparr>model_ctor = (\<lambda>mc mp. Inl (ValueError ''rejected'')), randint_raw = 0,
        shuffle_raw = (\<lambda>i. 0)\<rparr>"
      "[(''Jz'', 1)]" None
      "[''config.yml'' \<mapsto> YDict (fmupd ''model_class'' (YStr ''SpinModel'') fmempty)]"]
  show ?thesis
    by (simp add: doc_section_def resolve_path_def)
qed

section \<open>Truncation and closeness\<close>

text \<open>Truncation of a quotient of numerals, for the evaluation of examples.\<close>

lemma floor_rat_numeral: "\<lfloor>numeral a / numeral b :: rat\<rfloor> = numeral a div numeral b"
  by (metis floor_divide_of_int_eq of_int_numeral)

lemma floor_rat_neg_numeral: "\<lfloor>- (numeral a / numeral b) :: rat\<rfloor> = - numeral a div numeral b"
  by (metis divide_minus_left floor_divide_of_int_eq of_int_neg_numeral of_int_numeral)

lemma ceiling_rat_numeral: "\<lceil>numeral a / numeral b :: rat\<rceil> = - (- numeral a div numeral b)"
  by (metis ceiling_def floor_rat_neg_numeral)

lemma ceiling_rat_neg_numeral: "\<lceil>- (numeral a / numeral b) :: rat\<rceil> = - (numeral a div numeral b)"
  by (simp add: ceiling_def floor_rat_numeral)

lemmas trunc_numeral = floor_rat_numeral floor_rat_neg_numeral ceiling_rat_numeral ceiling_rat_neg_numeral

lemma py_int_of_int: "py_int (of_int k) = k"
  by (simp add: py_int_def)

lemma isclose_refl: "isclose a a"
  by (simp add: isclose_def)


lemma not_Ints_floor: "x \<noteq> of_int \<lfloor>x\<rfloor> \<Longrightarrow> (x :: rat) \<notin> \<int>"
  by (metis Ints_cases floor_of_int)









section \<open>Shuffling and reshaping\<close>

lemma mset_shuffle_steps:
  "i < length xs \<Longrightarrow> mset (shuffle_steps raw i xs) = mset xs"
proof (induction i arbitrary: xs)
  case 0
  then show ?case by simp
next
  case (Suc i)
  let ?j = "raw (Suc i) mod Suc (Suc i)"
  have j: "?j < length xs" using Suc.prems
    by (meson Suc_lessI less_Suc_eq_le less_le_trans mod_less_divisor not_less zero_less_Suc le_less_trans)
  have "mset (xs[Suc i := xs ! ?j, ?j := xs ! Suc i]) = mset xs"
    using Suc.prems j by (simp add: mset_swap)
  moreover have "i < length (xs[Suc i := xs ! ?j, ?j := xs ! Suc i])"
    using Suc.prems by simp
  ultimately show ?case
    using Suc.IH by (simp add: Let_def)
qed

lemma mset_np_shuffle: "mset (np_shuffle e xs) = mset xs"
proof (cases xs)
  case Nil
  then show ?thesis by (simp add: np_shuffle_def)
next
  case (Cons x ys)
  then show ?thesis by (simp add: np_shuffle_def mset_shuffle_steps)
qed

lemma length_np_shuffle: "length (np_shuffle e xs) = length xs"
  by (metis mset_np_shuffle size_mset)

lemma set_np_shuffle: "set (np_shuffle e xs) = set xs"
  by (metis mset_np_shuffle set_mset_mset)

lemma count_np_shuffle: "count_list (np_shuffle e xs) x = count_list xs x"
  by (metis mset_np_shuffle count_mset)

lemma length_chunks: "length (chunks n m xs) = n"
  by (induction n arbitrary: xs) simp_all

lemma concat_chunks: "length xs = n * m \<Longrightarrow> concat (chunks n m xs) = xs"
  by (induction n arbitrary: xs) simp_all

lemma chunks_length: "length xs = n * m \<Longrightarrow> c \<in> set (chunks n m xs) \<Longrightarrow> length c = m"
proof (induction n arbitrary: xs)
  case 0
  then show ?case by simp
next
  case (Suc n)
  from Suc.prems(1) have rest: "length (drop m xs) = n * m" by simp
  from Suc.prems(2) consider "c = take m xs" | "c \<in> set (chunks n m (drop m xs))"
    by auto
  then show ?case
  proof cases
    case 1
    with Suc.prems(1) show ?thesis by simp
  next
    case 2
    with Suc.IH [OF rest] show ?thesis .
  qed
qed

lemma chunks_subset: "c \<in> set (chunks n m xs) \<Longrightarrow> set c \<subseteq> set xs"
proof (induction n arbitrary: xs)
  case 0
  then show ?case by simp
next
  case (Suc n)
  then show ?case
    by (auto dest: in_set_takeD in_set_dropD)
qed

lemma reshape_tolist_ok:
  assumes "length xs = prod_list ns" and "\<forall>x \<in> set xs. is_label x"
  shows "flatten (reshape_tolist ns xs) = xs \<and> has_shape ns (reshape_tolist ns xs)"
  using assms
proof (induction ns arbitrary: xs)
  case Nil
  then obtain x where xs: "xs = [x]"
    by (cases xs) simp_all
  with Nil show ?case
    by (cases x) (simp_all add: is_label_def)
next
  case (Cons n ns)
  let ?cs = "chunks n (prod_list ns) xs"
  from Cons.prems have len: "length xs = n * prod_list ns" by simp
  have each: "flatten (reshape_tolist ns c) = c \<and> has_shape ns (reshape_tolist ns c)"
    if "c \<in> set ?cs" for c
  proof (rule Cons.IH)
    from chunks_length [OF len that] show "length c = prod_list ns" .
    from chunks_subset [OF that] Cons.prems(2) show "\<forall>x\<in>set c. is_label x" by blast
  qed
  have "concat (map flatten (map (reshape_tolist ns) ?cs)) = concat ?cs"
    using each by (simp add: map_idI o_def cong: map_cong)
  with len have "flatten (reshape_tolist (n # ns) xs) = xs"
    by (simp add: concat_chunks)
  moreover have "has_shape (n # ns) (reshape_tolist (n # ns) xs)"
    using each by (simp add: length_chunks list_all_iff)
  ultimately show ?case by simp
qed

lemma count_list_replicate: "count_list (replicate n x) y = (if x = y then n else 0)"
  by (induction n) auto

section \<open>Stage 3\<close>

lemma load_yaml_section: "doc_section (snd (load_yaml p fs)) q k = doc_section fs q k"
  by (auto simp: load_yaml_def doc_section_def split: option.splits)

lemma initial_state_after_check:
  assumes "\<not> not_half_integer tq" and "load_yaml (resolve_path path) fs = (data, fs1)"
  shows "spinhalf_initial_state e tq path fs =
           (case initial_state_body e tq data of
              Inl err \<Rightarrow> (Inl err, fs1)
            | Inr data' \<Rightarrow> (Inr (), dump_yaml data' (resolve_path path) fs1))"
  using assms by (simp add: spinhalf_initial_state_def)

lemma initial_state_failure:
  assumes "fst (spinhalf_initial_state e tq path fs) = Inl err"
  shows "snd (spinhalf_initial_state e tq path fs) = fs \<or>
         snd (spinhalf_initial_state e tq path fs) = snd (load_yaml (resolve_path path) fs)"
  using assms
  by (auto simp: spinhalf_initial_state_def Let_def split: if_splits prod.splits sum.splits)

lemma initial_state_failure_section:
  assumes "fst (spinhalf_initial_state e tq path fs) = Inl err"
  shows "doc_section (snd (spinhalf_initial_state e tq path fs)) p k = doc_section fs p k"
  using initial_state_failure [OF assms] by (auto simp: load_yaml_section)

lemma write_initial_state_dict:
  "write_initial_state init (YDict doc) =
     (case (case fmlookup doc ''initial_state_params'' of None \<Rightarrow> YDict fmempty | Some v \<Rightarrow> v) of
        YDict isp \<Rightarrow>
          Inr (YDict (fmupd ''initial_state_params''
                 (YDict (fmupd ''product_state'' init
                    (fmupd ''method'' (YStr ''lat_product_state'') isp))) doc))
      | _ \<Rightarrow> Inl TypeError)"
  by (simp add: write_initial_state_def py_setdefault_dict del: py_setdefault.simps
      split: yval.splits)


lemma occupation_Some:
  "occupation e (Some q) n =
     (if isclose (q + of_nat n / 2) (of_int (py_int (q + of_nat n / 2))) \<and>
         isclose (- q + of_nat n / 2) (of_int (py_int (- q + of_nat n / 2)))
      then Inr (py_int (q + of_nat n / 2), py_int (- q + of_nat n / 2))
      else Inl (ValueError ''Inconsistent tot_charge and system size! ''))"
  by (simp add: occupation_def Let_def)

lemma length_init:
  "length (np_shuffle e (replicate (nat a) (YStr ''up'') @ replicate (nat b) (YStr ''down''))) =
     nat a + nat b"
  by (simp add: length_np_shuffle)

lemma product_state_eq:
  "product_state e shp a b =
     (if prod_list shp \<noteq> nat a + nat b then Inl (ValueError ''cannot reshape array'')
      else Inr (reshape_tolist shp
             (np_shuffle e (replicate (nat a) (YStr ''up'') @ replicate (nat b) (YStr ''down'')))))"
  by (simp add: product_state_def np_reshape_def Let_def length_init)




lemma chain4_load:
  "load_yaml (resolve_path None) [''config.yml'' \<mapsto> chain4_document] =
     (chain4_document, [''config.yml'' \<mapsto> chain4_document])"
  by (simp add: load_yaml_def resolve_path_def chain4_document_def)

lemma chain4_model:
  "model_of_document chain4_env chain4_document =
     Inr \<lparr>conserve = YStr ''Sz'', shape = [4, 1], N_sites = 4\<rparr>"
  by (simp add: model_of_document_def chain4_env_def chain4_document_def)



lemma half_integer_of_counts:
  assumes "q + of_nat N / 2 = of_int a" and "of_nat N / 2 - q = of_int b"
  shows "\<not> not_half_integer (Some q)"
proof -
  from assms have "2 * q = of_int a - of_int b" by linarith
  then have "2 * q = of_int (a - b)" by simp
  then show ?thesis
    by (simp add: not_half_integer_def py_int_of_int isclose_refl del: of_int_diff)
qed





text \<open>
  Claim C4.  Let the document at the path be a mapping from which the model is built, with
  \<open>N\<close> sites and a shape of \<open>N\<close> places, and let its \<^verbatim>\<open>initial_state_params\<close> be absent
  or a mapping.  If \<open>q + N/2\<close> and \<open>N/2 - q\<close> are the integers \<open>n_up\<close> and \<open>n_dn\<close>, neither
  negative (so that \<open>q\<close> is a multiple of one half), then stage 3 succeeds, and the
  \<^verbatim>\<open>product_state\<close> it persists holds \<open>n_up\<close> labels \<^verbatim>\<open>up\<close> and \<open>n_dn\<close> labels
  \<^verbatim>\<open>down\<close>, \<open>N\<close> labels in all, nested in the shape of the lattice.
\<close>

theorem initial_state_product_state:
  assumes ld: "load_yaml (resolve_path path) fs = (YDict doc, fs1)"
    and md: "model_of_document e (YDict doc) = Inr m"
    and lat: "prod_list (shape m) = N_sites m"
    and isp: "(case fmlookup doc ''initial_state_params'' of
                 None \<Rightarrow> YDict fmempty | Some v \<Rightarrow> v) = YDict isp"
    and up: "q + of_nat (N_sites m) / 2 = of_int n_up" "0 \<le> n_up"
    and dn: "of_nat (N_sites m) / 2 - q = of_int n_dn" "0 \<le> n_dn"
  shows "\<exists>ps. spinhalf_initial_state e (Some q) path fs =
                (Inr (),
                 fs1(resolve_path path \<mapsto> YDict (fmupd ''initial_state_params''
                   (YDict (fmupd ''product_state'' ps
                      (fmupd ''method'' (YStr ''lat_product_state'') isp))) doc))) \<and>
              count_list (flatten ps) (YStr ''up'') = nat n_up \<and>
              count_list (flatten ps) (YStr ''down'') = nat n_dn \<and>
              nat n_up + nat n_dn = N_sites m \<and>
              length (flatten ps) = N_sites m \<and>
              has_shape (shape m) ps"
proof -
  let ?N = "N_sites m"
  let ?xs = "np_shuffle e (replicate (nat n_up) (YStr ''up'') @ replicate (nat n_dn) (YStr ''down''))"
  let ?ps = "reshape_tolist (shape m) ?xs"
  have chk: "\<not> not_half_integer (Some q)"
    by (rule half_integer_of_counts [OF up(1) dn(1)])
  have dn': "- q + of_nat ?N / 2 = of_int n_dn"
    using dn(1) by simp
  have occ: "occupation e (Some q) ?N = Inr (n_up, n_dn)"
    unfolding occupation_Some up(1) dn' by (simp add: py_int_of_int isclose_refl)
  from up(1) dn(1) have "(of_int n_up :: rat) + of_int n_dn = of_nat ?N" by linarith
  then have "(of_int (n_up + n_dn) :: rat) = of_int (int ?N)" by simp
  then have "n_up + n_dn = int ?N" by (simp only: of_int_eq_iff)
  with up(2) dn(2) have total: "nat n_up + nat n_dn = ?N" by linarith
  have len: "length ?xs = prod_list (shape m)"
    using total lat by (simp add: length_np_shuffle)
  have labels: "\<forall>x \<in> set ?xs. is_label x"
    by (auto simp: set_np_shuffle is_label_def)
  from reshape_tolist_ok [OF len labels]
  have flat: "flatten ?ps = ?xs" and shp: "has_shape (shape m) ?ps" by simp_all
  have ps: "product_state e (shape m) n_up n_dn = Inr ?ps"
    using total lat by (simp add: product_state_eq)
  have body: "initial_state_body e (Some q) (YDict doc) =
      Inr (YDict (fmupd ''initial_state_params''
             (YDict (fmupd ''product_state'' ?ps
                (fmupd ''method'' (YStr ''lat_product_state'') isp))) doc))"
    by (simp add: initial_state_body_def md occ ps write_initial_state_dict isp)
  have run: "spinhalf_initial_state e (Some q) path fs =
      (Inr (), fs1(resolve_path path \<mapsto> YDict (fmupd ''initial_state_params''
                   (YDict (fmupd ''product_state'' ?ps
                      (fmupd ''method'' (YStr ''lat_product_state'') isp))) doc)))"
    by (simp add: initial_state_after_check [OF chk ld] body dump_yaml_def)
  have cu: "count_list (flatten ?ps) (YStr ''up'') = nat n_up"
    by (simp add: flat count_np_shuffle count_list_replicate)
  have cd: "count_list (flatten ?ps) (YStr ''down'') = nat n_dn"
    by (simp add: flat count_np_shuffle count_list_replicate)
  have ln: "length (flatten ?ps) = ?N"
    using total by (simp add: flat length_np_shuffle)
  from run cu cd total ln shp show ?thesis by blast
qed

text \<open>
  The charge 1 on the chain of four sites: a sequence of length four, with three labels
  \<^verbatim>\<open>up\<close> and one label \<^verbatim>\<open>down\<close>.
\<close>

theorem initial_state_product_state_witness:
  "\<exists>ps xs.
     spinhalf_initial_state chain4_env (Some 1) None [''config.yml'' \<mapsto> chain4_document] =
       (Inr (),
        [''config.yml'' \<mapsto> YDict (fmupd ''initial_state_params''
           (YDict (fmupd ''product_state'' ps
              (fmupd ''method'' (YStr ''lat_product_state'') fmempty)))
           (fmap_of_list
             [(''model_class'', YStr ''SpinModel''),
              (''model_params'', YDict (fmap_of_list
                 [(''lattice'', YStr ''Chain''), (''S'', YFloat (1 / 2)),
                  (''bc_MPS'', YStr ''finite''), (''L'', YInt 4), (''bc_x'', YStr ''open'')]))]))]) \<and>
     ps = YList xs \<and> length xs = 4 \<and>
     count_list (flatten ps) (YStr ''up'') = 3 \<and>
     count_list (flatten ps) (YStr ''down'') = 1 \<and>
     has_shape [4, 1] ps"
proof -
  let ?doc = "fmap_of_list
             [(''model_class'', YStr ''SpinModel''),
              (''model_params'', YDict (fmap_of_list
                 [(''lattice'', YStr ''Chain''), (''S'', YFloat (1 / 2)),
                  (''bc_MPS'', YStr ''finite''), (''L'', YInt 4), (''bc_x'', YStr ''open'')]))]"
  let ?m = "\<lparr>conserve = YStr ''Sz'', shape = [4, 1], N_sites = 4\<rparr>"
  have ld: "load_yaml (resolve_path None) [''config.yml'' \<mapsto> chain4_document] =
      (YDict ?doc, [''config.yml'' \<mapsto> chain4_document])"
    using chain4_load by (simp add: chain4_document_def)
  have md: "model_of_document chain4_env (YDict ?doc) = Inr ?m"
    using chain4_model by (simp add: chain4_document_def)
  have lat: "prod_list (shape ?m) = N_sites ?m" by simp
  have isp: "(case fmlookup ?doc ''initial_state_params'' of
                 None \<Rightarrow> YDict fmempty | Some v \<Rightarrow> v) = YDict fmempty"
    by simp
  have up: "1 + of_nat (N_sites ?m) / 2 = (of_int 3 :: rat)" "(0 :: int) \<le> 3" by simp_all
  have dn: "of_nat (N_sites ?m) / 2 - 1 = (of_int 1 :: rat)" "(0 :: int) \<le> 1" by simp_all
  from initial_state_product_state [OF ld md lat isp up dn] obtain ps where
    run: "spinhalf_initial_state chain4_env (Some 1) None [''config.yml'' \<mapsto> chain4_document] =
       (Inr (),
        [''config.yml'' \<mapsto> YDict (fmupd ''initial_state_params''
           (YDict (fmupd ''product_state'' ps
              (fmupd ''method'' (YStr ''lat_product_state'') fmempty))) ?doc)])" and
    cnt: "count_list (flatten ps) (YStr ''up'') = 3" "count_list (flatten ps) (YStr ''down'') = 1" and
    shp: "has_shape [4, 1] ps"
    by (auto simp: resolve_path_def chain4_document_def)
  from shp obtain xs where "ps = YList xs" "length xs = 4"
    by (cases ps) simp_all
  with run cnt shp show ?thesis by blast
qed

text \<open>
  Claim C5, as stated, fails.  The float \<open>1/2 + 2\<^sup>-\<^sup>4\<^sup>0\<close> is not a multiple of one half,
  but twice it is within the relative tolerance \<open>10\<^sup>-\<^sup>9\<close> of 1: the check of line 174
  passes, and on the chain of four sites the call fails later, with the error for an
  inconsistent charge.
\<close>

theorem close_charge_passes_half_integer_check:
  "2 * (549755813889 / 1099511627776 :: rat) \<notin> \<int> \<and>
   fst (spinhalf_initial_state chain4_env (Some (549755813889 / 1099511627776)) None
          [''config.yml'' \<mapsto> chain4_document]) =
     Inl (ValueError ''Inconsistent tot_charge and system size! '')"
proof -
  have chk: "\<not> not_half_integer (Some (549755813889 / 1099511627776))"
    by (simp add: not_half_integer_def isclose_def py_int_def rel_tol_def trunc_numeral)
  have occ: "occupation chain4_env (Some (549755813889 / 1099511627776)) 4 =
      Inl (ValueError ''Inconsistent tot_charge and system size! '')"
    by (simp add: occupation_Some isclose_def py_int_def rel_tol_def trunc_numeral)
  have "2 * (549755813889 / 1099511627776 :: rat) \<notin> \<int>"
    by (rule not_Ints_floor) (simp add: trunc_numeral)
  moreover have "fst (spinhalf_initial_state chain4_env (Some (549755813889 / 1099511627776)) None
          [''config.yml'' \<mapsto> chain4_document]) =
     Inl (ValueError ''Inconsistent tot_charge and system size! '')"
    by (simp add: initial_state_after_check [OF chk chain4_load] initial_state_body_def
        chain4_model occ)
  ultimately show ?thesis ..
qed

text \<open>
  Claim C5, amended.  For a charge \<open>q\<close> such that \<open>2q\<close> is not within the tolerance of
  \<^verbatim>\<open>math.isclose\<close> of its truncation, stage 3 raises the error for a charge that is not a
  half-integer and leaves the file system as it was.  And whenever stage 3 fails, the
  \<^verbatim>\<open>initial_state_params\<close> of the document are what they were before the call.
\<close>

theorem initial_state_invalid_charge:
  "(not_half_integer (Some q) \<longrightarrow>
      spinhalf_initial_state e (Some q) path fs =
        (Inl (ValueError ''tot_charge is not half integer! ''), fs)) \<and>
   ((\<exists>err. fst (spinhalf_initial_state e (Some q) path fs) = Inl err) \<longrightarrow>
      doc_section (snd (spinhalf_initial_state e (Some q) path fs)) (resolve_path path)
          ''initial_state_params'' =
        doc_section fs (resolve_path path) ''initial_state_params'')"
proof (intro conjI impI)
  let ?r = "spinhalf_initial_state e (Some q) path fs"
  show "?r = (Inl (ValueError ''tot_charge is not half integer! ''), fs)"
    if "not_half_integer (Some q)"
    using that by (simp add: spinhalf_initial_state_def)
  show "doc_section (snd ?r) (resolve_path path) ''initial_state_params'' =
        doc_section fs (resolve_path path) ''initial_state_params''"
    if "\<exists>err. fst ?r = Inl err"
    using that initial_state_failure_section by blast
qed

text \<open>The charge 0.3.\<close>

theorem initial_state_invalid_charge_witness:
  "not_half_integer (Some (3 / 10)) \<and>
   spinhalf_initial_state chain4_env (Some (3 / 10)) None [''config.yml'' \<mapsto> chain4_document] =
     (Inl (ValueError ''tot_charge is not half integer! ''), [''config.yml'' \<mapsto> chain4_document]) \<and>
   doc_section
       (snd (spinhalf_initial_state chain4_env (Some (3 / 10)) None
               [''config.yml'' \<mapsto> chain4_document]))
       (resolve_path None) ''initial_state_params'' =
     doc_section [''config.yml'' \<mapsto> chain4_document] (resolve_path None) ''initial_state_params''"
proof -
  have nh: "not_half_integer (Some (3 / 10))"
    by (simp add: not_half_integer_def isclose_def py_int_def rel_tol_def trunc_numeral)
  note t = initial_state_invalid_charge [of "3 / 10" chain4_env None "[''config.yml'' \<mapsto> chain4_document]"]
  from t nh have run:
    "spinhalf_initial_state chain4_env (Some (3 / 10)) None [''config.yml'' \<mapsto> chain4_document] =
     (Inl (ValueError ''tot_charge is not half integer! ''), [''config.yml'' \<mapsto> chain4_document])"
    by blast
  then have "\<exists>err. fst (spinhalf_initial_state chain4_env (Some (3 / 10)) None
                 [''config.yml'' \<mapsto> chain4_document]) = Inl err"
    by simp
  with t have same: "doc_section
       (snd (spinhalf_initial_state chain4_env (Some (3 / 10)) None
               [''config.yml'' \<mapsto> chain4_document]))
       (resolve_path None) ''initial_state_params'' =
     doc_section [''config.yml'' \<mapsto> chain4_document] (resolve_path None) ''initial_state_params''"
    by blast
  from nh run same show ?thesis
    by blast
qed

section \<open>Stage 4\<close>

text \<open>
  Claim C7, as stated, fails: \<^verbatim>\<open>dmrg_and_measu_config\<close> has no check of its inputs, and
  the call with bond-dimension cap 0 and sweep count -1 succeeds.
\<close>

theorem dmrg_config_accepts_nonpositive:
  "fst (dmrg_and_measu_config 0 (- 1) (Some ''config.yml'') Map.empty) = Inr ()"
  by (simp add: dmrg_and_measu_config_def dmrg_body_def load_yaml_def resolve_path_def Let_def)

text \<open>
  Claim C7, amended.  For all integers \<^verbatim>\<open>chi_max\<close> and \<^verbatim>\<open>max_sweeps\<close>, positive or not,
  when the document loaded from the path is a mapping the stage succeeds and persists the
  document with the simulation class, the algorithm parameters (solver identifier, the two
  inputs as given, the mixer off, the truncation tolerance), the measurement flag, the
  three fixed measurements and the file name convention written over it.
\<close>

theorem dmrg_config_writes_fixed_parameters:
  assumes "load_yaml (resolve_path path) fs = (YDict doc, fs1)"
  shows "dmrg_and_measu_config chi_max max_sweeps path fs =
           (Inr (),
            fs1(resolve_path path \<mapsto> YDict
              (fmupd ''output_filename_params'' output_filename_params
              (fmupd ''connect_measurements'' connect_measurements
              (fmupd ''measure_initial'' (YBool False)
              (fmupd ''algorithm_params'' (algorithm_params chi_max max_sweeps)
              (fmupd ''simulation_class'' (YStr ''GroundStateSearch'') doc)))))))"
  using assms
  by (simp add: dmrg_and_measu_config_def dmrg_body_def dump_yaml_def)

theorem dmrg_config_writes_fixed_parameters_witness:
  "load_yaml (resolve_path (Some ''config.yml'')) Map.empty =
     (YDict fmempty, [''config.yml'' \<mapsto> YDict fmempty]) \<and>
   dmrg_and_measu_config 100 10 (Some ''config.yml'') Map.empty =
     (Inr (),
      [''config.yml'' \<mapsto> YDict
         (fmupd ''output_filename_params'' output_filename_params
         (fmupd ''connect_measurements'' connect_measurements
         (fmupd ''measure_initial'' (YBool False)
         (fmupd ''algorithm_params'' (algorithm_params 100 10)
         (fmupd ''simulation_class'' (YStr ''GroundStateSearch'') fmempty)))))])"
proof -
  have ld: "load_yaml (resolve_path (Some ''config.yml'')) Map.empty =
     (YDict fmempty, [''config.yml'' \<mapsto> YDict fmempty])"
    by (simp add: load_yaml_def resolve_path_def)
  from dmrg_config_writes_fixed_parameters [OF ld, of 100 10] ld show ?thesis
    by (simp add: resolve_path_def)
qed

section \<open>Failures and writes\<close>

text \<open>
  Claim C2.  Stages 1 and 3 raise before they write (\<open>lattice_config_failure\<close>,
  \<open>initial_state_failure\<close>): stage 3 builds the model (line 181)
  long before its dump (line 210).  Stage 2 dumps the merged parameters (line 152) and
  builds the model afterwards (line 154): when the constructor rejects a parameter, the
  error is raised with the rejected parameter, and \<^verbatim>\<open>conserve\<close>, already persisted.  Here
  the chain of four sites is given the spin 0.7.
\<close>

theorem model_config_writes_before_construction:
  "fst (spinhalf_model_config chain4_env [(''S'', 7 / 10)] None
          [''config.yml'' \<mapsto> chain4_document]) = Inl (ValueError ''rejected'') \<and>
   (\<exists>mp. doc_section
            (snd (spinhalf_model_config chain4_env [(''S'', 7 / 10)] None
                    [''config.yml'' \<mapsto> chain4_document]))
            ''config.yml'' ''model_params'' = Some (YDict mp) \<and>
         fmlookup mp ''S'' = Some (YFloat (7 / 10)) \<and>
         fmlookup mp ''conserve'' = Some (YStr ''best'')) \<and>
   (\<exists>mp. doc_section [''config.yml'' \<mapsto> chain4_document] ''config.yml'' ''model_params'' =
            Some (YDict mp) \<and>
         fmlookup mp ''S'' = Some (YFloat (1 / 2)) \<and>
         fmlookup mp ''conserve'' = None)"
  by (simp add: spinhalf_model_config_def model_config_body_def load_yaml_def dump_yaml_def
      resolve_path_def chain4_document_def chain4_env_def doc_section_def Let_def)

end
